theory Spec2Isabelle
  imports Complex_Main "HOL-Library.Char_ord" "HOL-Library.List_Lexorder" "HOL-Library.Sublist"
    "HOL-Library.Log_Nat"
begin

chapter \<open>The tools\<close>

section \<open>Python values\<close>

text \<open>
  The tools exchange JSON text. A decoded payload is a value of \<open>json\<close>; a Python
  dict is an association list with distinct keys, in insertion order. A finite Python
  float is the rational that the IEEE 754 double stands for; the three non-finite values
  that \<^verbatim>\<open>json.loads\<close> accepts are values of their own. Strings are lists of code
  points below 256.
\<close>

datatype pyfloat = Fin rat | PInf | NInf | NaN

datatype json =
    JNull
  | JBool bool
  | JInt int
  | JFloat pyfloat
  | JStr string
  | JList "json list"
  | JDict "(string \<times> json) list"

datatype error = JSONDecodeError | AttributeError | TypeError | ValueError | OverflowError

text \<open>
  What the Python library does is a parameter of the model: \<open>loads\<close> is
  \<^verbatim>\<open>json.loads\<close> (\<open>None\<close> when it raises), \<open>dumps\<close> is \<^verbatim>\<open>json.dumps\<close> with its
  \<^verbatim>\<open>indent\<close> argument, \<open>repr\<close> is \<^verbatim>\<open>repr\<close> on a decoded value, \<open>float_of_str\<close> is
  \<^verbatim>\<open>float\<close> on a string (\<open>None\<close> when it raises), \<open>fmt2f\<close> is the format specification
  \<^verbatim>\<open>.2f\<close> on a float, \<open>re_search\<close> is group 1 of \<^verbatim>\<open>re.search\<close> with
  \<^verbatim>\<open>re.IGNORECASE\<close> (\<open>None\<close> when nothing matches), \<open>utcnow\<close> is the ISO text of the
  current time.
\<close>

record env =
  loads :: "string \<Rightarrow> json option"
  dumps :: "nat option \<Rightarrow> json \<Rightarrow> string"
  repr :: "json \<Rightarrow> string"
  float_of_str :: "string \<Rightarrow> pyfloat option"
  fmt2f :: "pyfloat \<Rightarrow> string"
  re_search :: "string \<Rightarrow> string \<Rightarrow> string option"
  utcnow :: "string"

subsection \<open>Strings\<close>

definition char_lower :: "char \<Rightarrow> char" where
  "char_lower c =
     (let n = (of_char c :: nat)
      in if (65 \<le> n \<and> n \<le> 90) \<or> (192 \<le> n \<and> n \<le> 222 \<and> n \<noteq> 215)
         then char_of (n + 32) else c)"

definition lower :: "string \<Rightarrow> string" where
  "lower s = map char_lower s"

text \<open>\<^verbatim>\<open>sub in t\<close> on strings: \<open>sub\<close> occurs in \<open>t\<close> as a contiguous block.\<close>

fun py_in :: "string \<Rightarrow> string \<Rightarrow> bool" where
  "py_in sub [] = (sub = [])"
| "py_in sub (c # cs) = (prefix sub (c # cs) \<or> py_in sub cs)"

subsection \<open>Dictionaries and iteration\<close>

text \<open>\<^verbatim>\<open>d.get(k, default)\<close> on a dict.\<close>

definition dict_get :: "(string \<times> json) list \<Rightarrow> string \<Rightarrow> json \<Rightarrow> json" where
  "dict_get d k dflt = (case map_of d k of Some v \<Rightarrow> v | None \<Rightarrow> dflt)"

text \<open>
  \<^verbatim>\<open>for s in v\<close>: a list gives its elements, a string its characters, a dict its keys;
  every other decoded value is not iterable.
\<close>

definition py_iter :: "json \<Rightarrow> error + json list" where
  "py_iter v =
     (case v of
        JList xs \<Rightarrow> Inr xs
      | JStr s \<Rightarrow> Inr (map (\<lambda>c. JStr [c]) s)
      | JDict d \<Rightarrow> Inr (map (\<lambda>kv. JStr (fst kv)) d)
      | _ \<Rightarrow> Inl TypeError)"

text \<open>\<^verbatim>\<open>[s.lower() for s in xs]\<close>: only a string has \<^verbatim>\<open>lower\<close>.\<close>

fun lower_each :: "json list \<Rightarrow> error + string list" where
  "lower_each [] = Inr []"
| "lower_each (x # xs) =
     (case x of
        JStr s \<Rightarrow> (case lower_each xs of Inl e \<Rightarrow> Inl e | Inr ys \<Rightarrow> Inr (lower s # ys))
      | _ \<Rightarrow> Inl AttributeError)"

definition lower_all :: "json \<Rightarrow> error + string list" where
  "lower_all v = (case py_iter v of Inl e \<Rightarrow> Inl e | Inr xs \<Rightarrow> lower_each xs)"

subsection \<open>Floats\<close>

text \<open>The integer nearest to a rational, a tie going to the even one.\<close>

definition round_half_even :: "rat \<Rightarrow> int" where
  "round_half_even q =
     (let f = \<lfloor>q\<rfloor>; r = q - of_int f
      in if r < 1 / 2 then f else if 1 / 2 < r then f + 1 else if even f then f else f + 1)"

definition pow2 :: "int \<Rightarrow> rat" where
  "pow2 e = (if 0 \<le> e then 2 ^ nat e else 1 / 2 ^ nat (- e))"

text \<open>The exponent of a positive rational: the \<open>e\<close> with \<open>2 ^ e \<le> q < 2 ^ (e + 1)\<close>.\<close>

definition floor_log2 :: "rat \<Rightarrow> int" where
  "floor_log2 q =
     (case quotient_of q of
        (a, b) \<Rightarrow>
          (let d = int (floorlog 2 (nat a)) - int (floorlog 2 (nat b))
           in if pow2 d \<le> q then d else d - 1))"

text \<open>
  The double nearest to a rational, a tie going to the even significand: 53 significant
  bits, and steps of \<open>2 ^ -1074\<close> below \<open>2 ^ -1022\<close>. The callers keep the argument below
  the largest double.
\<close>

definition to_double :: "rat \<Rightarrow> rat" where
  "to_double q =
     (if q = 0 then 0
      else (let e = max (floor_log2 \<bar>q\<bar>) (- 1022); u = pow2 (e - 52)
            in of_int (round_half_even (q / u)) * u))"

text \<open>\<^verbatim>\<open>a / b\<close> on two lengths, \<open>b\<close> not zero: the double nearest to the quotient.\<close>

definition truediv :: "nat \<Rightarrow> nat \<Rightarrow> rat" where
  "truediv a b = to_double (of_nat a / of_nat b)"

text \<open>
  \<^verbatim>\<open>round(x, 3)\<close> on a float: the value of the double is rounded to the nearest multiple
  of 1/1000, a tie going to the even one, and the result is the double nearest to that
  decimal.
\<close>

definition round3 :: "rat \<Rightarrow> rat" where
  "round3 x = to_double (of_int (round_half_even (x * 1000)) / 1000)"

section \<open>Match engine (tools/match\_tools.py)\<close>

definition SKILL_VOCAB :: "string list" where
  "SKILL_VOCAB =
     [''java'', ''python'', ''javascript'', ''typescript'', ''c'', ''c++'', ''sql'', ''html'',
      ''css'', ''react'', ''angular'', ''vue'', ''spring'', ''spring boot'', ''django'',
      ''flask'', ''fastapi'', ''node.js'', ''nodejs'', ''express'', ''mongodb'',
      ''postgresql'', ''mysql'', ''docker'', ''kubernetes'', ''aws'', ''gcp'', ''azure'',
      ''rest'', ''restful'', ''graphql'']"

definition extract_skills_from_text :: "string \<Rightarrow> string list" where
  "extract_skills_from_text text =
     (let t = lower text;
          found = set (filter (\<lambda>skill. py_in skill t) SKILL_VOCAB)
      in sorted_list_of_set found)"

definition ensure_resume_profile :: "env \<Rightarrow> string \<Rightarrow> (string \<times> json) list" where
  "ensure_resume_profile E v =
     (case loads E v of
        Some (JDict obj) \<Rightarrow> obj
      | _ \<Rightarrow> [(''raw_text'', JStr v),
              (''skills'', JList (map JStr (extract_skills_from_text v)))])"

definition ensure_job_profile :: "env \<Rightarrow> string \<Rightarrow> (string \<times> json) list" where
  "ensure_job_profile E v =
     (case loads E v of
        Some (JDict obj) \<Rightarrow> obj
      | _ \<Rightarrow> [(''raw_text'', JStr v),
              (''required_skills'', JList (map JStr (extract_skills_from_text v)))])"

text \<open>The text of a list of strings in an f-string, or the word \<^verbatim>\<open>none\<close>.\<close>

definition list_or_none :: "env \<Rightarrow> string list \<Rightarrow> string" where
  "list_or_none E xs = (if xs \<noteq> [] then repr E (JList (map JStr xs)) else ''none'')"

definition match_explanation :: "env \<Rightarrow> string list \<Rightarrow> string list \<Rightarrow> nat \<Rightarrow> string" where
  "match_explanation E overlap missing n =
     ''Matched '' @ repr E (JInt (int (length overlap))) @ '' out of '' @ repr E (JInt (int n))
       @ '' required skills. '' @ ''Overlap: '' @ list_or_none E overlap @ ''. ''
       @ ''Missing: '' @ list_or_none E missing @ ''.''"

text \<open>The dict \<^verbatim>\<open>result\<close> of \<^verbatim>\<open>compute_match\<close>, before it is serialised.\<close>

definition compute_match_result :: "env \<Rightarrow> string \<Rightarrow> string \<Rightarrow> error + (string \<times> json) list" where
  "compute_match_result E resume_profile_json job_profile_json =
     (let resume_profile = ensure_resume_profile E resume_profile_json;
          job_profile = ensure_job_profile E job_profile_json
      in case lower_all (dict_get resume_profile ''skills'' (JList [])) of
           Inl e \<Rightarrow> Inl e
         | Inr resume_skills \<Rightarrow>
          (case lower_all (dict_get job_profile ''required_skills'' (JList [])) of
             Inl e \<Rightarrow> Inl e
           | Inr job_skills \<Rightarrow>
              (let resume_set = set resume_skills;
                   job_set = set job_skills;
                   overlap = sorted_list_of_set (resume_set \<inter> job_set);
                   missing = sorted_list_of_set (job_set - resume_set);
                   score = (if job_set \<noteq> {} then truediv (length overlap) (card job_set) else 0);
                   explanation = match_explanation E overlap missing (card job_set)
               in Inr [(''score'', JFloat (Fin (round3 score))),
                       (''overlapping_skills'', JList (map JStr overlap)),
                       (''missing_skills'', JList (map JStr missing)),
                       (''explanation'', JStr explanation)])))"

definition compute_match :: "env \<Rightarrow> string \<Rightarrow> string \<Rightarrow> error + string" where
  "compute_match E resume_profile_json job_profile_json =
     (case compute_match_result E resume_profile_json job_profile_json of
        Inl e \<Rightarrow> Inl e
      | Inr result \<Rightarrow> Inr (dumps E (Some 2) (JDict result)))"

text \<open>A skill field that is a list of strings, and the strings in it.\<close>

fun is_str :: "json \<Rightarrow> bool" where
  "is_str (JStr s) = True"
| "is_str _ = False"

fun the_str :: "json \<Rightarrow> string" where
  "the_str (JStr s) = s"
| "the_str _ = []"

definition str_list :: "json \<Rightarrow> string list option" where
  "str_list v =
     (case v of
        JList xs \<Rightarrow> (if list_all is_str xs then Some (map the_str xs) else None)
      | _ \<Rightarrow> None)"

text \<open>The skill lists that \<^verbatim>\<open>compute_match\<close> reads from its two profiles.\<close>

definition resume_skills_of :: "env \<Rightarrow> string \<Rightarrow> json" where
  "resume_skills_of E r = dict_get (ensure_resume_profile E r) ''skills'' (JList [])"

definition job_skills_of :: "env \<Rightarrow> string \<Rightarrow> json" where
  "job_skills_of E j = dict_get (ensure_job_profile E j) ''required_skills'' (JList [])"

section \<open>Text extractor (tools/resume\_tools.py, tools/job\_tools.py)\<close>

text \<open>\<^verbatim>\<open>str.isspace\<close> and the line boundaries of \<^verbatim>\<open>str.splitlines\<close>, on code points below 256.\<close>

definition is_space :: "char \<Rightarrow> bool" where
  "is_space c = ((of_char c :: nat) \<in> {9, 10, 11, 12, 13, 28, 29, 30, 31, 32, 133, 160})"

definition is_linebreak :: "char \<Rightarrow> bool" where
  "is_linebreak c = ((of_char c :: nat) \<in> {10, 11, 12, 13, 28, 29, 30, 133})"

definition strip :: "string \<Rightarrow> string" where
  "strip s = rev (dropWhile is_space (rev (dropWhile is_space s)))"

text \<open>\<^verbatim>\<open>splitlines\<close>: \<open>cur\<close> is the line read so far; a CR LF pair is one boundary.\<close>

fun splitlines_from :: "string \<Rightarrow> string \<Rightarrow> string list" where
  "splitlines_from cur [] = (if cur = [] then [] else [cur])"
| "splitlines_from cur [c] = (if is_linebreak c then [cur] else [cur @ [c]])"
| "splitlines_from cur (c # d # cs) =
     (if c = CHR 0x0D \<and> d = CHR 0x0A then cur # splitlines_from [] cs
      else if is_linebreak c then cur # splitlines_from [] (d # cs)
      else splitlines_from (cur @ [c]) (d # cs))"

definition splitlines :: "string \<Rightarrow> string list" where
  "splitlines s = splitlines_from [] s"

text \<open>The loop over the lines: the first line that is not empty once stripped.\<close>

fun first_nonempty_line :: "string list \<Rightarrow> string option" where
  "first_nonempty_line [] = None"
| "first_nonempty_line (line # rest) =
     (if strip line \<noteq> [] then Some (strip line) else first_nonempty_line rest)"

definition COMMON_SKILLS :: "string list" where
  "COMMON_SKILLS =
     [''java'', ''python'', ''c++'', ''c#'', ''javascript'', ''typescript'',
      ''react'', ''angular'', ''spring'', ''spring boot'', ''django'', ''flask'',
      ''aws'', ''azure'', ''gcp'', ''kubernetes'', ''docker'', ''sql'', ''mongodb'',
      ''rest'', ''microservices'', ''graphql'', ''kafka'', ''spark'']"

definition extract_name :: "string \<Rightarrow> string" where
  "extract_name resume_text =
     (case first_nonempty_line (splitlines resume_text) of
        Some line \<Rightarrow> line
      | None \<Rightarrow> ''Unknown Candidate'')"

text \<open>The loop that drops repeated entries and keeps the order of first occurrence.\<close>

fun dedup :: "string list \<Rightarrow> string set \<Rightarrow> string list \<Rightarrow> string list" where
  "dedup [] seen result = result"
| "dedup (s # found) seen result =
     (if s \<notin> seen then dedup found (insert s seen) (result @ [s]) else dedup found seen result)"

definition extract_skills :: "string \<Rightarrow> string list" where
  "extract_skills resume_text =
     (let resume_lower = lower resume_text;
          found = filter (\<lambda>skill. py_in skill resume_lower) COMMON_SKILLS
      in dedup found {} [])"

definition parse_resume_profile :: "string \<Rightarrow> (string \<times> json) list" where
  "parse_resume_profile resume_text =
     (let name = extract_name resume_text;
          skills = extract_skills resume_text
      in [(''name'', JStr name),
          (''skills'', JList (map JStr skills)),
          (''raw_text'', JStr resume_text)])"

definition parse_resume :: "env \<Rightarrow> string \<Rightarrow> string" where
  "parse_resume E resume_text = dumps E (Some 2) (JDict (parse_resume_profile resume_text))"

text \<open>
  The two patterns, \<^verbatim>\<open>job\s*title\s*[:\-]\s*(.+)\<close> and \<^verbatim>\<open>location\s*[:\-]\s*(.+)\<close>;
  \<open>bs\<close> is the backslash.
\<close>

definition bs :: string where
  "bs = [CHR 0x5C]"

definition job_title_pattern :: string where
  "job_title_pattern = ''job'' @ bs @ ''s*title'' @ bs @ ''s*[:'' @ bs @ ''-]'' @ bs @ ''s*(.+)''"

definition location_pattern :: string where
  "location_pattern = ''location'' @ bs @ ''s*[:'' @ bs @ ''-]'' @ bs @ ''s*(.+)''"

definition extract_role_title :: "env \<Rightarrow> string \<Rightarrow> string" where
  "extract_role_title E job_text =
     (case re_search E job_title_pattern job_text of
        Some g \<Rightarrow> strip g
      | None \<Rightarrow>
         (case first_nonempty_line (splitlines job_text) of
            Some line \<Rightarrow> line
          | None \<Rightarrow> ''Unknown Role''))"

definition extract_location :: "env \<Rightarrow> string \<Rightarrow> string" where
  "extract_location E job_text =
     (case re_search E location_pattern job_text of
        Some g \<Rightarrow> strip g
      | None \<Rightarrow> ''Not specified'')"

definition extract_required_skills :: "string \<Rightarrow> string list" where
  "extract_required_skills job_text =
     (let job_lower = lower job_text;
          found = filter (\<lambda>skill. py_in skill job_lower) COMMON_SKILLS
      in dedup found {} [])"

definition parse_job_description_profile :: "env \<Rightarrow> string \<Rightarrow> (string \<times> json) list" where
  "parse_job_description_profile E job_text =
     (let role_title = extract_role_title E job_text;
          location = extract_location E job_text;
          required_skills = extract_required_skills job_text
      in [(''role_title'', JStr role_title),
          (''location'', JStr location),
          (''required_skills'', JList (map JStr required_skills)),
          (''raw_text'', JStr job_text)])"

definition parse_job_description :: "env \<Rightarrow> string \<Rightarrow> string" where
  "parse_job_description E job_text =
     dumps E (Some 2) (JDict (parse_job_description_profile E job_text))"

text \<open>Whether \<^verbatim>\<open>json.loads\<close> returns a dict on a text.\<close>

definition decodes_to_mapping :: "env \<Rightarrow> string \<Rightarrow> bool" where
  "decodes_to_mapping E v = (case loads E v of Some (JDict obj) \<Rightarrow> True | _ \<Rightarrow> False)"

section \<open>Python built-ins on decoded values\<close>

text \<open>Truth value of a decoded value, and \<^verbatim>\<open>x or default\<close>.\<close>

fun truthy :: "json \<Rightarrow> bool" where
  "truthy JNull = False"
| "truthy (JBool b) = b"
| "truthy (JInt n) = (n \<noteq> 0)"
| "truthy (JFloat f) = (f \<noteq> Fin 0)"
| "truthy (JStr s) = (s \<noteq> [])"
| "truthy (JList xs) = (xs \<noteq> [])"
| "truthy (JDict d) = (d \<noteq> [])"

definition py_or :: "json \<Rightarrow> json \<Rightarrow> json" where
  "py_or x dflt = (if truthy x then x else dflt)"

text \<open>\<^verbatim>\<open>str(x)\<close>: a string is itself, every other value is printed as \<^verbatim>\<open>repr\<close> prints it.\<close>

definition py_str :: "env \<Rightarrow> json \<Rightarrow> string" where
  "py_str E v = (case v of JStr s \<Rightarrow> s | _ \<Rightarrow> repr E v)"

text \<open>\<^verbatim>\<open>obj.get(k, default)\<close> on a decoded value: only a dict has \<^verbatim>\<open>get\<close>.\<close>

definition py_get :: "json \<Rightarrow> string \<Rightarrow> json \<Rightarrow> error + json" where
  "py_get obj k dflt = (case obj of JDict d \<Rightarrow> Inr (dict_get d k dflt) | _ \<Rightarrow> Inl AttributeError)"

text \<open>
  \<^verbatim>\<open>try: x = json.loads(s)\<close> \<^verbatim>\<open>except Exception: x = {}\<close>
\<close>

definition loads_or_empty :: "env \<Rightarrow> string \<Rightarrow> json" where
  "loads_or_empty E s = (case loads E s of Some v \<Rightarrow> v | None \<Rightarrow> JDict [])"

subsection \<open>Floats: comparison, \<^verbatim>\<open>min\<close>, \<^verbatim>\<open>max\<close> and \<^verbatim>\<open>float(x)\<close>\<close>

text \<open>\<^verbatim>\<open>a < b\<close> on floats: false whenever one side is not a number.\<close>

fun flt :: "pyfloat \<Rightarrow> pyfloat \<Rightarrow> bool" where
  "flt (Fin a) (Fin b) = (a < b)"
| "flt (Fin a) PInf = True"
| "flt NInf (Fin b) = True"
| "flt NInf PInf = True"
| "flt _ _ = False"

text \<open>\<^verbatim>\<open>min(a, b)\<close> keeps \<open>a\<close> unless \<open>b < a\<close>; \<^verbatim>\<open>max(a, b)\<close> keeps \<open>a\<close> unless \<open>b > a\<close>.\<close>

definition py_min :: "pyfloat \<Rightarrow> pyfloat \<Rightarrow> pyfloat" where
  "py_min a b = (if flt b a then b else a)"

definition py_max :: "pyfloat \<Rightarrow> pyfloat \<Rightarrow> pyfloat" where
  "py_max a b = (if flt a b then b else a)"

text \<open>
  An integer has a float when it rounds to less than \<open>2 ^ 1024\<close>; a larger one raises
  OverflowError.
\<close>

definition int_overflows :: "int \<Rightarrow> bool" where
  "int_overflows n = (2 ^ 1024 - 2 ^ 970 \<le> \<bar>n\<bar>)"

text \<open>
  \<^verbatim>\<open>float(x)\<close>: a number is converted, a string is parsed, every other value raises
  TypeError.
\<close>

definition py_float :: "env \<Rightarrow> json \<Rightarrow> error + pyfloat" where
  "py_float E v =
     (case v of
        JFloat f \<Rightarrow> Inr f
      | JInt n \<Rightarrow> (if int_overflows n then Inl OverflowError
                   else Inr (Fin (to_double (of_int n))))
      | JBool b \<Rightarrow> Inr (Fin (if b then 1 else 0))
      | JStr s \<Rightarrow> (case float_of_str E s of Some f \<Rightarrow> Inr f | None \<Rightarrow> Inl ValueError)
      | _ \<Rightarrow> Inl TypeError)"

section \<open>Result validator (tools/improved\_tools.py)\<close>

text \<open>
  The score of the normalised result: \<^verbatim>\<open>float(score)\<close>, 0.0 when that raises, then
  \<^verbatim>\<open>max(0.0, min(1.0, score))\<close>.
\<close>

definition validated_score :: "env \<Rightarrow> json \<Rightarrow> pyfloat" where
  "validated_score E score =
     (let score = (case py_float E score of Inr f \<Rightarrow> f | Inl e \<Rightarrow> Fin 0)
      in py_max (Fin 0) (py_min (Fin 1) score))"

text \<open>
  A skill list of the normalised result:
  \<^verbatim>\<open>sorted({str(s).strip().lower() for s in skills if str(s).strip()})\<close>.
\<close>

definition validated_skills :: "env \<Rightarrow> json \<Rightarrow> error + string list" where
  "validated_skills E skills =
     (case py_iter skills of
        Inl e \<Rightarrow> Inl e
      | Inr xs \<Rightarrow>
          Inr (sorted_list_of_set
                 (set (map (\<lambda>s. lower (strip (py_str E s)))
                        (filter (\<lambda>s. strip (py_str E s) \<noteq> []) xs)))))"

text \<open>The dict \<^verbatim>\<open>normalized\<close> of \<^verbatim>\<open>validate_match_output\<close>, before it is serialised.\<close>

definition validate_match_output_result :: "env \<Rightarrow> string \<Rightarrow> error + (string \<times> json) list" where
  "validate_match_output_result E match_json_str =
     (let data = loads_or_empty E match_json_str
      in case py_get data ''score'' (JFloat (Fin 0)) of
           Inl e \<Rightarrow> Inl e
         | Inr score \<Rightarrow>
            (let score = validated_score E score
             in case py_get data ''overlapping_skills'' (JList []) of
                  Inl e \<Rightarrow> Inl e
                | Inr overlapping \<Rightarrow>
                   (case py_get data ''missing_skills'' (JList []) of
                      Inl e \<Rightarrow> Inl e
                    | Inr missing \<Rightarrow>
                       (case py_get data ''explanation'' (JStr []) of
                          Inl e \<Rightarrow> Inl e
                        | Inr explanation \<Rightarrow>
                           (case validated_skills E (py_or overlapping (JList [])) of
                              Inl e \<Rightarrow> Inl e
                            | Inr overlapping \<Rightarrow>
                               (case validated_skills E (py_or missing (JList [])) of
                                  Inl e \<Rightarrow> Inl e
                                | Inr missing \<Rightarrow>
                                    Inr [(''score'', JFloat score),
                                         (''overlapping_skills'', JList (map JStr overlapping)),
                                         (''missing_skills'', JList (map JStr missing)),
                                         (''explanation'', py_or explanation (JStr []))]))))))"

text \<open>A skill field over which the validator can iterate, once \<^verbatim>\<open>or []\<close> is applied.\<close>

definition skills_iterable :: "json \<Rightarrow> bool" where
  "skills_iterable v = (case py_iter (py_or v (JList [])) of Inr xs \<Rightarrow> True | Inl e \<Rightarrow> False)"

definition validate_match_output :: "env \<Rightarrow> string \<Rightarrow> error + string" where
  "validate_match_output E match_json_str =
     (case validate_match_output_result E match_json_str of
        Inl e \<Rightarrow> Inl e
      | Inr normalized \<Rightarrow> Inr (dumps E None (JDict normalized)))"

section \<open>JSON tool (tools/json\_tools.py)\<close>

text \<open>\<^verbatim>\<open>parse_json\<close> returns what \<^verbatim>\<open>json.loads\<close> returns, and raises what it raises.\<close>

definition parse_json :: "env \<Rightarrow> string \<Rightarrow> error + json" where
  "parse_json E json_str =
     (case loads E json_str of Some v \<Rightarrow> Inr v | None \<Rightarrow> Inl JSONDecodeError)"

section \<open>More built-ins: sequencing, slices, \<^verbatim>\<open>join\<close>, formatting\<close>

text \<open>One statement after another: the first exception ends the run.\<close>

definition and_then :: "error + 'a \<Rightarrow> ('a \<Rightarrow> error + 'b) \<Rightarrow> error + 'b" where
  "and_then x f = (case x of Inl e \<Rightarrow> Inl e | Inr v \<Rightarrow> f v)"







section \<open>Derived-text generators (tools/improved\_tools.py, tools/outreach\_tools.py)\<close>











section \<open>Run logger (tools/improved\_tools.py)\<close>

text \<open>
  The log store: the lines of \<^verbatim>\<open>runs_log.jsonl\<close>, and whether opening or writing the file
  raises, with the text of the exception.
\<close>

record store =
  log_lines :: "string list"
  write_fault :: "string option"

definition log_run ::
  "env \<Rightarrow> string \<Rightarrow> string \<Rightarrow> string \<Rightarrow> string \<Rightarrow> store \<Rightarrow> error + string \<times> store" where
  "log_run E resume_profile_json job_profile_json match_result_json email_text st =
     (let resume_profile = loads_or_empty E resume_profile_json;
          job_profile = loads_or_empty E job_profile_json;
          match_result = loads_or_empty E match_result_json
      in and_then (py_get resume_profile ''name'' JNull) (\<lambda>candidate_name.
         and_then (py_get job_profile ''role_title'' JNull) (\<lambda>role_title.
         and_then (py_get job_profile ''location'' JNull) (\<lambda>location.
         and_then (py_get match_result ''score'' JNull) (\<lambda>score.
         and_then (py_get match_result ''overlapping_skills'' JNull) (\<lambda>overlapping_skills.
         and_then (py_get match_result ''missing_skills'' JNull) (\<lambda>missing_skills.
           let record = [(''timestamp_utc'', JStr (utcnow E @ ''Z'')),
                         (''candidate_name'', candidate_name),
                         (''role_title'', role_title),
                         (''location'', location),
                         (''score'', score),
                         (''overlapping_skills'', overlapping_skills),
                         (''missing_skills'', missing_skills),
                         (''email_preview'', JStr (take 300 email_text))];
               log_path = ''runs_log.jsonl''
           in (case write_fault st of
                 None \<Rightarrow>
                   Inr (''Run logged to '' @ log_path @ ''.'',
                        st\<lparr>log_lines := log_lines st @ [dumps E None (JDict record) @ ''\<newline>'']\<rparr>)
               | Some e \<Rightarrow> Inr (''Failed to log run: '' @ e, st)))))))))"

section \<open>Well-formed inputs of the generators\<close>

text \<open>A text that is not JSON, or decodes to a mapping.\<close>

definition mapping_or_undecodable :: "env \<Rightarrow> string \<Rightarrow> bool" where
  "mapping_or_undecodable E s =
     (case loads E s of None \<Rightarrow> True | Some (JDict d) \<Rightarrow> True | _ \<Rightarrow> False)"

text \<open>The field a generator reads from a payload, with the default it passes to \<^verbatim>\<open>get\<close>.\<close>

definition field_of :: "env \<Rightarrow> string \<Rightarrow> string \<Rightarrow> json \<Rightarrow> json" where
  "field_of E s k dflt = (case loads_or_empty E s of JDict d \<Rightarrow> dict_get d k dflt | _ \<Rightarrow> dflt)"









section \<open>Sample environments\<close>

text \<open>
  An environment in which a few texts decode: two profiles, some of whose skills are not
  in lower case and one of which is repeated; a match result as an upstream tool may
  write it, and the normalised form of it; two results with a negative and a textual
  score; a JSON list; two results whose skill field is a number or a truth value. Every
  other text is not JSON. The encoder writes the normalised result as the text that
  decodes to it.
\<close>

definition normalized_match :: json where
  "normalized_match =
     JDict [(''score'', JFloat (Fin 1)),
            (''overlapping_skills'', JList [JStr ''python'', JStr ''sql'']),
            (''missing_skills'', JList [JStr ''kafka'']),
            (''explanation'', JStr [])]"

definition sample_loads :: "string \<Rightarrow> json option" where
  "sample_loads s =
     (if s = ''resume.json''
      then Some (JDict [(''name'', JStr ''Jane Doe''),
                        (''skills'', JList [JStr ''Python'', JStr ''SQL''])])
      else if s = ''job.json''
      then Some (JDict [(''role_title'', JStr ''Backend Engineer''),
                        (''location'', JStr ''Remote''),
                        (''required_skills'',
                           JList [JStr ''python'', JStr ''React'', JStr ''sql'', JStr ''SQL''])])
      else if s = ''raw_match.json''
      then Some (JDict [(''score'', JFloat (Fin (3 / 2))),
                        (''overlapping_skills'',
                           JList [JStr ''Python'', JStr ''python'', JStr '' SQL '']),
                        (''missing_skills'', JList [JStr ''Kafka'']),
                        (''explanation'', JNull)])
      else if s = ''normalized_match.json'' then Some normalized_match
      else if s = ''low_score.json'' then Some (JDict [(''score'', JFloat (Fin (- 1 / 5)))])
      else if s = ''text_score.json'' then Some (JDict [(''score'', JStr ''abc'')])
      else if s = ''list.json'' then Some (JList [])
      else if s = ''number_skills.json''
      then Some (JDict [(''score'', JFloat (Fin (3 / 2))), (''overlapping_skills'', JInt 5)])
      else if s = ''flag_skills.json''
      then Some (JDict [(''score'', JFloat (Fin (1 / 2))), (''missing_skills'', JBool True)])
      else None)"

definition sample_env :: env where
  "sample_env =
     \<lparr>loads = sample_loads,
       dumps = (\<lambda>indent v. if v = normalized_match then ''normalized_match.json''
                           else ''other.json''),
       repr = (\<lambda>v. ''?''),
       float_of_str = (\<lambda>s. None),
       fmt2f = (\<lambda>f. ''?.??''),
       re_search = (\<lambda>pattern text. None),
       utcnow = ''2024-01-01T00:00:00''\<rparr>"

chapter \<open>Properties\<close>

section \<open>Properties of the match engine\<close>

lemma lower_each_strs: "list_all is_str xs \<Longrightarrow> lower_each xs = Inr (map (\<lambda>x. lower (the_str x)) xs)"
proof (induction xs)
  case Nil
  then show ?case by simp
next
  case (Cons x xs)
  then obtain s where "x = JStr s" by (cases x) auto
  with Cons show ?case by simp
qed

lemma lower_all_str_list: "str_list v = Some ss \<Longrightarrow> lower_all v = Inr (map lower ss)"
  by (cases v) (auto simp: str_list_def lower_all_def py_iter_def lower_each_strs split: if_splits)

lemma round3_zero: "round3 0 = 0"
  by (simp add: round3_def round_half_even_def to_double_def)

lemma compute_match_result_strs:
  assumes "str_list (resume_skills_of E r) = Some rs"
    and "str_list (job_skills_of E j) = Some js"
  shows "compute_match_result E r j =
           Inr [(''score'', JFloat (Fin (round3
                   (if set (map lower js) \<noteq> {}
                    then truediv (length (sorted_list_of_set (set (map lower rs) \<inter> set (map lower js))))
                           (card (set (map lower js)))
                    else 0)))),
                (''overlapping_skills'',
                   JList (map JStr (sorted_list_of_set (set (map lower rs) \<inter> set (map lower js))))),
                (''missing_skills'',
                   JList (map JStr (sorted_list_of_set (set (map lower js) - set (map lower rs))))),
                (''explanation'',
                   JStr (match_explanation E
                     (sorted_list_of_set (set (map lower rs) \<inter> set (map lower js)))
                     (sorted_list_of_set (set (map lower js) - set (map lower rs)))
                     (card (set (map lower js)))))]"
proof -
  have r: "lower_all (dict_get (ensure_resume_profile E r) ''skills'' (JList [])) = Inr (map lower rs)"
    using assms(1) lower_all_str_list by (simp add: resume_skills_of_def)
  have j: "lower_all (dict_get (ensure_job_profile E j) ''required_skills'' (JList [])) = Inr (map lower js)"
    using assms(2) lower_all_str_list by (simp add: job_skills_of_def)
  show ?thesis
    unfolding compute_match_result_def Let_def r j by simp
qed

lemma round_half_even_cases:
  obtains f r where "y = of_int f + r" "0 \<le> r" "r < 1"
    "round_half_even y
       = (if r < 1 / 2 then f else if 1 / 2 < r then f + 1 else if even f then f else f + 1)"
proof -
  define f where "f = \<lfloor>y\<rfloor>"
  define r where "r = y - of_int f"
  have "0 \<le> r" "r < 1"
    unfolding r_def f_def by linarith+
  moreover have "y = of_int f + r"
    by (simp add: r_def)
  moreover have "round_half_even y
       = (if r < 1 / 2 then f else if 1 / 2 < r then f + 1 else if even f then f else f + 1)"
    by (simp add: round_half_even_def Let_def f_def r_def)
  ultimately show ?thesis
    using that by blast
qed

lemma round_half_even_near: "\<bar>of_int (round_half_even y) - y\<bar> \<le> 1 / 2"
proof -
  obtain f r where "y = of_int f + r" "0 \<le> r" "r < 1"
    "round_half_even y
       = (if r < 1 / 2 then f else if 1 / 2 < r then f + 1 else if even f then f else f + 1)"
    by (rule round_half_even_cases)
  then show ?thesis
    by (auto simp: abs_if)
qed

lemma round_half_even_tie:
  assumes "\<bar>of_int (round_half_even y) - y\<bar> = 1 / 2"
  shows "even (round_half_even y)"
proof -
  obtain f r where "y = of_int f + r" "0 \<le> r" "r < 1"
    "round_half_even y
       = (if r < 1 / 2 then f else if 1 / 2 < r then f + 1 else if even f then f else f + 1)"
    by (rule round_half_even_cases)
  with assms show ?thesis
    by (auto simp: abs_if split: if_splits)
qed

lemma pow2_pos: "0 < pow2 e"
  by (simp add: pow2_def)

lemma to_double_near:
  "\<bar>to_double q - q\<bar> \<le> pow2 (max (floor_log2 \<bar>q\<bar>) (- 1022) - 52) / 2"
proof (cases "q = 0")
  case True
  then show ?thesis
    using pow2_pos [of "max (floor_log2 \<bar>q\<bar>) (- 1022) - 52"] by (simp add: to_double_def)
next
  case False
  define u where "u = pow2 (max (floor_log2 \<bar>q\<bar>) (- 1022) - 52)"
  have u: "0 < u"
    unfolding u_def by (rule pow2_pos)
  have "of_int (round_half_even (q / u)) * u - q = (of_int (round_half_even (q / u)) - q / u) * u"
    using u by (simp add: left_diff_distrib)
  then have "\<bar>of_int (round_half_even (q / u)) * u - q\<bar> = \<bar>of_int (round_half_even (q / u)) - q / u\<bar> * u"
    using u by (simp add: abs_mult)
  also have "\<dots> \<le> 1 / 2 * u"
    using round_half_even_near [of "q / u"] u by (intro mult_right_mono) simp_all
  finally show ?thesis
    using False by (simp add: to_double_def Let_def u_def)
qed

text \<open>
  C1. For two profiles whose skill fields are lists of strings, \<^verbatim>\<open>compute_match\<close> returns
  the serialised result whose score is \<^verbatim>\<open>round(|overlap| / |job_set|, 3)\<close>, with both
  counted on the sets of lowercased skills, when the set of required skills is not empty;
  and 0.0 when that set is empty, whatever the candidate's skills are. The division gives
  the double nearest to the quotient; \<^verbatim>\<open>round\<close> takes the value of that double to the
  nearest thousandth, a tie to the even one, and gives the double nearest to it. So 2 of
  3 skills score 0.667, 1 of 80 scores 0.013 and 3 of 80 score 0.037 (the doubles lie
  beside the ties 0.0125 and 0.0375), and 1 of 16 scores 0.062 (0.0625 is a double, and
  the tie goes to the even thousandth).
\<close>

theorem compute_match_score:
  assumes "str_list (resume_skills_of E r) = Some rs"
    and "str_list (job_skills_of E j) = Some js"
  shows "(\<exists>result. compute_match_result E r j = Inr result
           \<and> compute_match E r j = Inr (dumps E (Some 2) (JDict result))
           \<and> map_of result ''score'' =
               Some (JFloat (Fin
                 (if lower ` set js \<noteq> {}
                  then round3 (truediv (card (lower ` set rs \<inter> lower ` set js))
                                 (card (lower ` set js)))
                  else 0))))
         \<and> (\<forall>a b. \<bar>truediv a b - of_nat a / of_nat b\<bar>
                     \<le> pow2 (max (floor_log2 \<bar>of_nat a / of_nat b\<bar>) (- 1022) - 52) / 2)
         \<and> (\<forall>x. \<exists>k. round3 x = to_double (of_int k / 1000) \<and> \<bar>of_int k - x * 1000\<bar> \<le> 1 / 2
                     \<and> (\<bar>of_int k - x * 1000\<bar> = 1 / 2 \<longrightarrow> even k))
         \<and> round3 (truediv 2 3) = to_double (667 / 1000)
         \<and> round3 (truediv 1 80) = to_double (13 / 1000)
         \<and> round3 (truediv 3 80) = to_double (37 / 1000)
         \<and> round3 (truediv 1 16) = to_double (62 / 1000)"
proof (intro conjI allI)
  have len: "length (sorted_list_of_set (lower ` set rs \<inter> lower ` set js))
               = card (lower ` set rs \<inter> lower ` set js)"
    by simp
  show "\<exists>result. compute_match_result E r j = Inr result
           \<and> compute_match E r j = Inr (dumps E (Some 2) (JDict result))
           \<and> map_of result ''score'' =
               Some (JFloat (Fin
                 (if lower ` set js \<noteq> {}
                  then round3 (truediv (card (lower ` set rs \<inter> lower ` set js))
                                 (card (lower ` set js)))
                  else 0)))"
    unfolding compute_match_def compute_match_result_strs [OF assms]
    by (simp add: round3_zero len del: sorted_list_of_set.length_sorted_key_list_of_set)
next
  fix a b
  show "\<bar>truediv a b - of_nat a / of_nat b\<bar>
          \<le> pow2 (max (floor_log2 \<bar>of_nat a / of_nat b\<bar>) (- 1022) - 52) / 2"
    unfolding truediv_def by (rule to_double_near)
next
  fix x :: rat
  show "\<exists>k. round3 x = to_double (of_int k / 1000) \<and> \<bar>of_int k - x * 1000\<bar> \<le> 1 / 2
              \<and> (\<bar>of_int k - x * 1000\<bar> = 1 / 2 \<longrightarrow> even k)"
    using round_half_even_near [of "x * 1000"] round_half_even_tie [of "x * 1000"]
    by (intro exI [of _ "round_half_even (x * 1000)"]) (simp add: round3_def)
next
  show "round3 (truediv 2 3) = to_double (667 / 1000)"
    by code_simp
next
  show "round3 (truediv 1 80) = to_double (13 / 1000)"
    by code_simp
next
  show "round3 (truediv 3 80) = to_double (37 / 1000)"
    by code_simp
next
  show "round3 (truediv 1 16) = to_double (62 / 1000)"
    by code_simp
qed

theorem compute_match_score_witness:
  "str_list (resume_skills_of sample_env ''resume.json'') = Some [''Python'', ''SQL'']
   \<and> str_list (job_skills_of sample_env ''job.json'') = Some [''python'', ''React'', ''sql'', ''SQL'']
   \<and> (\<exists>result. compute_match_result sample_env ''resume.json'' ''job.json'' = Inr result
          \<and> map_of result ''score'' = Some (JFloat (Fin (to_double (667 / 1000)))))
   \<and> to_double (667 / 1000) = 3003900951456121 / 4503599627370496
   \<and> truediv 1 80 = 3602879701896397 / 288230376151711744
   \<and> round3 (truediv 1 80) = 7493989779944505 / 576460752303423488"
proof -
  have h1: "str_list (resume_skills_of sample_env ''resume.json'') = Some [''Python'', ''SQL'']"
    by (simp add: resume_skills_of_def ensure_resume_profile_def sample_env_def sample_loads_def dict_get_def
        str_list_def)
  have h2: "str_list (job_skills_of sample_env ''job.json'')
              = Some [''python'', ''React'', ''sql'', ''SQL'']"
    by (simp add: job_skills_of_def ensure_job_profile_def sample_env_def sample_loads_def dict_get_def
        str_list_def)
  have c1: "card (lower ` set [''Python'', ''SQL'']
                    \<inter> lower ` set [''python'', ''React'', ''sql'', ''SQL'']) = 2"
    by code_simp
  have c2: "card (lower ` set [''python'', ''React'', ''sql'', ''SQL'']) = 3"
    by code_simp
  have c3: "lower ` set [''python'', ''React'', ''sql'', ''SQL''] \<noteq> {}"
    by simp
  have c5: "to_double (667 / 1000) = 3003900951456121 / 4503599627370496"
    by code_simp
  have c6: "truediv 1 80 = 3602879701896397 / 288230376151711744"
    by code_simp
  have c7: "to_double (13 / 1000) = 7493989779944505 / 576460752303423488"
    by code_simp
  note t = compute_match_score [OF h1 h2]
  from t have c4: "round3 (truediv 2 3) = to_double (667 / 1000)"
    by blast
  from t have "\<exists>result. compute_match_result sample_env ''resume.json'' ''job.json'' = Inr result
          \<and> compute_match sample_env ''resume.json'' ''job.json''
              = Inr (dumps sample_env (Some 2) (JDict result))
          \<and> map_of result ''score'' =
               Some (JFloat (Fin
                 (if lower ` set [''python'', ''React'', ''sql'', ''SQL''] \<noteq> {}
                  then round3 (truediv (card (lower ` set [''Python'', ''SQL'']
                                 \<inter> lower ` set [''python'', ''React'', ''sql'', ''SQL'']))
                                 (card (lower ` set [''python'', ''React'', ''sql'', ''SQL''])))
                  else 0)))"
    by (rule conjunct1)
  then obtain result where
    "compute_match_result sample_env ''resume.json'' ''job.json'' = Inr result"
    "map_of result ''score'' = Some (JFloat (Fin (to_double (667 / 1000))))"
    unfolding c1 c2 c4 using c3 by auto
  then have e:
    "\<exists>result. compute_match_result sample_env ''resume.json'' ''job.json'' = Inr result
          \<and> map_of result ''score'' = Some (JFloat (Fin (to_double (667 / 1000))))"
    by blast
  from t have c8: "round3 (truediv 1 80) = to_double (13 / 1000)"
    by blast
  have c9: "round3 (truediv 1 80) = 7493989779944505 / 576460752303423488"
    unfolding c8 by (rule c7)
  from h1 h2 e c5 c6 c9 show ?thesis
    by (intro conjI)
qed

text \<open>
  C2. For two profiles whose skill fields are lists of strings, the lists
  \<^verbatim>\<open>overlapping_skills\<close> and \<^verbatim>\<open>missing_skills\<close> of the result have no common element,
  together they hold exactly the lowercased required skills of the job, and each of
  them is in ascending lexicographic order.
\<close>

theorem compute_match_partition:
  assumes "str_list (resume_skills_of E r) = Some rs"
    and "str_list (job_skills_of E j) = Some js"
  shows "\<exists>result overlap missing.
           compute_match_result E r j = Inr result
           \<and> compute_match E r j = Inr (dumps E (Some 2) (JDict result))
           \<and> map_of result ''overlapping_skills'' = Some (JList (map JStr overlap))
           \<and> map_of result ''missing_skills'' = Some (JList (map JStr missing))
           \<and> set overlap \<inter> set missing = {}
           \<and> set overlap \<union> set missing = lower ` set js
           \<and> sorted overlap \<and> sorted missing"
proof -
  let ?overlap = "sorted_list_of_set (set (map lower rs) \<inter> set (map lower js))"
  let ?missing = "sorted_list_of_set (set (map lower js) - set (map lower rs))"
  have disj: "set ?overlap \<inter> set ?missing = {}"
    by auto
  have un: "set ?overlap \<union> set ?missing = lower ` set js"
    by auto
  have so: "sorted ?overlap" and sm: "sorted ?missing"
    by simp_all
  obtain result where res: "compute_match_result E r j = Inr result"
    and ov: "map_of result ''overlapping_skills'' = Some (JList (map JStr ?overlap))"
    and mi: "map_of result ''missing_skills'' = Some (JList (map JStr ?missing))"
    using compute_match_result_strs [OF assms] by simp
  have "compute_match E r j = Inr (dumps E (Some 2) (JDict result))"
    by (simp add: compute_match_def res)
  with res ov mi disj un so sm show ?thesis
    by blast
qed

theorem compute_match_partition_witness:
  "str_list (resume_skills_of sample_env ''resume.json'') = Some [''Python'', ''SQL'']
   \<and> str_list (job_skills_of sample_env ''job.json'') = Some [''python'', ''React'', ''sql'', ''SQL'']
   \<and> (\<exists>result overlap missing.
          compute_match_result sample_env ''resume.json'' ''job.json'' = Inr result
          \<and> map_of result ''overlapping_skills'' = Some (JList (map JStr overlap))
          \<and> map_of result ''missing_skills'' = Some (JList (map JStr missing))
          \<and> set overlap \<inter> set missing = {}
          \<and> set overlap \<union> set missing = lower ` set [''python'', ''React'', ''sql'', ''SQL'']
          \<and> sorted overlap \<and> sorted missing)
   \<and> (case compute_match_result sample_env ''resume.json'' ''job.json'' of
         Inl e \<Rightarrow> False
       | Inr result \<Rightarrow>
           map_of result ''overlapping_skills'' = Some (JList [JStr ''python'', JStr ''sql''])
           \<and> map_of result ''missing_skills'' = Some (JList [JStr ''react'']))"
proof -
  have h1: "str_list (resume_skills_of sample_env ''resume.json'') = Some [''Python'', ''SQL'']"
    by (simp add: resume_skills_of_def ensure_resume_profile_def sample_env_def sample_loads_def dict_get_def
        str_list_def)
  have h2: "str_list (job_skills_of sample_env ''job.json'')
              = Some [''python'', ''React'', ''sql'', ''SQL'']"
    by (simp add: job_skills_of_def ensure_job_profile_def sample_env_def sample_loads_def dict_get_def
        str_list_def)
  have v: "case compute_match_result sample_env ''resume.json'' ''job.json'' of
         Inl e \<Rightarrow> False
       | Inr result \<Rightarrow>
           map_of result ''overlapping_skills'' = Some (JList [JStr ''python'', JStr ''sql''])
           \<and> map_of result ''missing_skills'' = Some (JList [JStr ''react''])"
    by code_simp
  from compute_match_partition [OF h1 h2] h1 h2 v show ?thesis
    by blast
qed

section \<open>Properties of the text extractor\<close>



lemma set_dedup: "set (dedup found seen result) = set result \<union> (set found - seen)"
  by (induction found arbitrary: seen result) auto

lemma dedup_distinct:
  "distinct found \<Longrightarrow> set found \<inter> seen = {} \<Longrightarrow> dedup found seen result = result @ found"
  by (induction found arbitrary: seen result) auto

lemma distinct_COMMON_SKILLS: "distinct COMMON_SKILLS"
  by (simp add: COMMON_SKILLS_def)

lemma extract_skills_filter:
  "extract_skills text = filter (\<lambda>skill. py_in skill (lower text)) COMMON_SKILLS"
  unfolding extract_skills_def Let_def
  using dedup_distinct [of "filter (\<lambda>skill. py_in skill (lower text)) COMMON_SKILLS" "{}" "[]"]
    distinct_COMMON_SKILLS
  by simp

lemma extract_required_skills_filter:
  "extract_required_skills text = filter (\<lambda>skill. py_in skill (lower text)) COMMON_SKILLS"
  unfolding extract_required_skills_def Let_def
  using dedup_distinct [of "filter (\<lambda>skill. py_in skill (lower text)) COMMON_SKILLS" "{}" "[]"]
    distinct_COMMON_SKILLS
  by simp






section \<open>Properties of the profile normalizer\<close>

lemma ensure_resume_profile_fallback:
  "\<not> decodes_to_mapping E v \<Longrightarrow>
     ensure_resume_profile E v
       = [(''raw_text'', JStr v), (''skills'', JList (map JStr (extract_skills_from_text v)))]"
  by (auto simp: decodes_to_mapping_def ensure_resume_profile_def split: option.splits json.splits)

lemma ensure_job_profile_fallback:
  "\<not> decodes_to_mapping E v \<Longrightarrow>
     ensure_job_profile E v
       = [(''raw_text'', JStr v),
          (''required_skills'', JList (map JStr (extract_skills_from_text v)))]"
  by (auto simp: decodes_to_mapping_def ensure_job_profile_def split: option.splits json.splits)

lemma set_extract_skills_from_text:
  "set (extract_skills_from_text v) = {s \<in> set SKILL_VOCAB. py_in s (lower v)}"
  by (simp add: extract_skills_from_text_def)

text \<open>
  C4, as the claim states it, fails: on a text that is not JSON the fallback path of the
  normalizer reads its own vocabulary and sorts what it finds, so its skill list differs
  from the text extractor's both in the entries and in their order.
\<close>

theorem fallback_differs_from_extractor:
  "\<not> decodes_to_mapping sample_env ''Spring, Django, Kafka, HTML''
   \<and> map_of (ensure_resume_profile sample_env ''Spring, Django, Kafka, HTML'') ''skills''
        = Some (JList [JStr ''django'', JStr ''html'', JStr ''spring''])
   \<and> map_of (ensure_job_profile sample_env ''Spring, Django, Kafka, HTML'') ''required_skills''
        = Some (JList [JStr ''django'', JStr ''html'', JStr ''spring''])
   \<and> extract_skills ''Spring, Django, Kafka, HTML'' = [''spring'', ''django'', ''kafka'']
   \<and> extract_required_skills ''Spring, Django, Kafka, HTML'' = [''spring'', ''django'', ''kafka'']
   \<and> map_of (ensure_resume_profile sample_env ''Spring, Django, Kafka, HTML'') ''skills''
        \<noteq> Some (JList (map JStr (extract_skills ''Spring, Django, Kafka, HTML'')))"
proof -
  have d: "\<not> decodes_to_mapping sample_env ''Spring, Django, Kafka, HTML''"
    by (simp add: decodes_to_mapping_def sample_env_def sample_loads_def)
  have f: "extract_skills_from_text ''Spring, Django, Kafka, HTML'' = [''django'', ''html'', ''spring'']"
    by code_simp
  have x: "extract_skills ''Spring, Django, Kafka, HTML'' = [''spring'', ''django'', ''kafka'']"
    by code_simp
  have y: "extract_required_skills ''Spring, Django, Kafka, HTML'' = [''spring'', ''django'', ''kafka'']"
    by code_simp
  show ?thesis
    using d by (simp add: ensure_resume_profile_fallback ensure_job_profile_fallback f x y)
qed

text \<open>
  C4, amended. For a text that does not decode to a JSON mapping, the fallback path of the
  normalizer gives, for a resume and for a job alike, the entries of the match engine's own
  vocabulary \<^verbatim>\<open>_SKILL_VOCAB\<close> that occur in the lowercased text, each once, in ascending
  lexicographic order. Among the entries that both vocabularies hold, it recognises the
  same ones as the text extractor.
\<close>

theorem fallback_skills:
  assumes "\<not> decodes_to_mapping E v"
  shows "\<exists>skills.
           map_of (ensure_resume_profile E v) ''skills'' = Some (JList (map JStr skills))
           \<and> map_of (ensure_job_profile E v) ''required_skills'' = Some (JList (map JStr skills))
           \<and> set skills = {s \<in> set SKILL_VOCAB. py_in s (lower v)}
           \<and> sorted skills \<and> distinct skills
           \<and> set skills \<inter> set COMMON_SKILLS = set (extract_skills v) \<inter> set SKILL_VOCAB
           \<and> set skills \<inter> set COMMON_SKILLS = set (extract_required_skills v) \<inter> set SKILL_VOCAB"
proof -
  let ?skills = "extract_skills_from_text v"
  have r: "map_of (ensure_resume_profile E v) ''skills'' = Some (JList (map JStr ?skills))"
    by (simp add: ensure_resume_profile_fallback [OF assms])
  have j: "map_of (ensure_job_profile E v) ''required_skills'' = Some (JList (map JStr ?skills))"
    by (simp add: ensure_job_profile_fallback [OF assms])
  have s: "sorted ?skills" and d: "distinct ?skills"
    by (simp_all add: extract_skills_from_text_def)
  have c: "set ?skills \<inter> set COMMON_SKILLS = set (extract_skills v) \<inter> set SKILL_VOCAB"
    unfolding set_extract_skills_from_text extract_skills_filter by auto
  have c': "set ?skills \<inter> set COMMON_SKILLS = set (extract_required_skills v) \<inter> set SKILL_VOCAB"
    unfolding set_extract_skills_from_text extract_required_skills_filter by auto
  from r j s d c c' set_extract_skills_from_text [of v] show ?thesis
    by blast
qed

theorem fallback_skills_witness:
  "\<not> decodes_to_mapping sample_env ''Spring, Django, Kafka, HTML''
   \<and> (\<exists>skills.
         map_of (ensure_resume_profile sample_env ''Spring, Django, Kafka, HTML'') ''skills''
           = Some (JList (map JStr skills))
         \<and> map_of (ensure_job_profile sample_env ''Spring, Django, Kafka, HTML'') ''required_skills''
             = Some (JList (map JStr skills))
         \<and> sorted skills \<and> distinct skills
         \<and> set skills \<inter> set COMMON_SKILLS
             = set (extract_skills ''Spring, Django, Kafka, HTML'') \<inter> set SKILL_VOCAB)
   \<and> extract_skills_from_text ''Spring, Django, Kafka, HTML'' = [''django'', ''html'', ''spring'']"
proof -
  have d: "\<not> decodes_to_mapping sample_env ''Spring, Django, Kafka, HTML''"
    by (simp add: decodes_to_mapping_def sample_env_def sample_loads_def)
  have f: "extract_skills_from_text ''Spring, Django, Kafka, HTML'' = [''django'', ''html'', ''spring'']"
    by code_simp
  from fallback_skills [OF d] d f show ?thesis
    by blast
qed

section \<open>Properties of the string functions\<close>

lemma char_of_plus_32: "n \<le> 222 \<Longrightarrow> of_char (char_of (n + 32 :: nat)) = n + 32"
  by simp

lemma char_lower_idem: "char_lower (char_lower c) = char_lower c"
proof -
  have "of_char (char_of (of_char c + 32 :: nat)) = (of_char c :: nat) + 32"
    if "(of_char c :: nat) \<le> 222"
    using that by (rule char_of_plus_32)
  then show ?thesis
    unfolding char_lower_def Let_def by (auto split: if_splits)
qed

lemma is_space_char_lower: "is_space (char_lower c) = is_space c"
proof -
  have "of_char (char_of (of_char c + 32 :: nat)) = (of_char c :: nat) + 32"
    if "(of_char c :: nat) \<le> 222"
    using that by (rule char_of_plus_32)
  then show ?thesis
    unfolding char_lower_def Let_def is_space_def by (auto split: if_splits)
qed

lemma lower_idem: "lower (lower s) = lower s"
  by (simp add: lower_def char_lower_idem)

lemma dropWhile_space_lower: "dropWhile is_space (lower s) = lower (dropWhile is_space s)"
  by (induction s) (simp_all add: lower_def is_space_char_lower)

lemma strip_lower: "strip (lower s) = lower (strip s)"
proof -
  have "rev (lower s) = lower (rev s)" for s
    by (simp add: lower_def rev_map)
  then show ?thesis
    by (simp add: strip_def dropWhile_space_lower)
qed

lemma strip_Nil: "strip [] = []"
  by (simp add: strip_def)

lemma dropWhile_space_strip: "dropWhile is_space (strip s) = strip s"
proof (cases "strip s = []")
  case True
  then show ?thesis by simp
next
  case False
  let ?a = "dropWhile is_space s"
  let ?b = "dropWhile is_space (rev ?a)"
  from False have b: "?b \<noteq> []"
    by (simp add: strip_def)
  then obtain x where x: "x \<in> set (rev ?a)" "\<not> is_space x"
    by auto
  then have "last ?b = last (rev ?a)"
    by (rule dropWhile_last)
  moreover have a: "?a \<noteq> []"
  proof
    assume "?a = []"
    with x(1) show False by simp
  qed
  ultimately have "last ?b = hd ?a"
    by (simp add: last_rev)
  moreover have "\<not> is_space (hd ?a)"
    using a by (rule hd_dropWhile)
  ultimately have "\<not> is_space (hd (rev ?b))"
    using b by (simp add: hd_rev)
  then show ?thesis
    by (simp add: strip_def dropWhile_eq_self_iff)
qed

lemma strip_idem: "strip (strip s) = strip s"
proof -
  have "strip (strip s) = rev (dropWhile is_space (rev (strip s)))"
    unfolding strip_def [of "strip s"] dropWhile_space_strip ..
  also have "rev (strip s) = dropWhile is_space (rev (dropWhile is_space s))"
    by (simp add: strip_def)
  finally show ?thesis
    by (simp add: strip_def)
qed

text \<open>A skill text, once stripped and lowercased, is left as it is by both functions.\<close>

lemma normal_lower: "lower (lower (strip s)) = lower (strip s)"
  by (rule lower_idem)

lemma normal_strip: "strip (lower (strip s)) = lower (strip s)"
  by (simp add: strip_lower strip_idem)

lemma lower_Nil_iff: "lower s = [] \<longleftrightarrow> s = []"
  by (simp add: lower_def)

section \<open>Properties of the result validator\<close>

lemma validated_score_range: "\<exists>q. validated_score E v = Fin q \<and> 0 \<le> q \<and> q \<le> 1"
proof -
  have "\<exists>q. py_max (Fin 0) (py_min (Fin 1) f) = Fin q \<and> 0 \<le> q \<and> q \<le> 1" for f
    by (cases f) (auto simp: py_max_def py_min_def)
  then show ?thesis
    by (simp add: validated_score_def Let_def)
qed

lemma validated_score_Fin:
  "py_float E v = Inr (Fin f) \<Longrightarrow> validated_score E v = Fin (max 0 (min 1 f))"
  by (auto simp: validated_score_def Let_def py_max_def py_min_def max_def min_def)

lemma validated_score_unit: "0 \<le> q \<Longrightarrow> q \<le> 1 \<Longrightarrow> validated_score E (JFloat (Fin q)) = Fin q"
  by (simp add: validated_score_Fin py_float_def)

lemma validated_score_idem: "validated_score E (JFloat (validated_score E v)) = validated_score E v"
  using validated_score_range [of E v] by (auto simp: validated_score_unit)

lemma validated_skills_Inr:
  assumes "validated_skills E v = Inr L"
  shows "\<exists>xs. py_iter v = Inr xs
           \<and> L = sorted_list_of_set
                   ((\<lambda>s. lower (strip (py_str E s))) ` {s \<in> set xs. strip (py_str E s) \<noteq> []})"
proof (cases "py_iter v")
  case (Inl e)
  with assms show ?thesis
    unfolding validated_skills_def by (simp only: sum.case sum.distinct)
next
  case (Inr xs)
  with assms have "L = sorted_list_of_set (set (map (\<lambda>s. lower (strip (py_str E s)))
                                      (filter (\<lambda>s. strip (py_str E s) \<noteq> []) xs)))"
    unfolding validated_skills_def by (simp only: sum.case sum.inject)
  then show ?thesis
    using Inr by (simp only: set_map set_filter) blast
qed

lemma validated_skills_normal:
  assumes "validated_skills E v = Inr L"
  shows "sorted L \<and> distinct L \<and> (\<forall>s \<in> set L. s \<noteq> [] \<and> strip s = s \<and> lower s = s)"
proof -
  from validated_skills_Inr [OF assms] obtain xs where
    L: "L = sorted_list_of_set
              ((\<lambda>s. lower (strip (py_str E s))) ` {s \<in> set xs. strip (py_str E s) \<noteq> []})"
    by blast
  let ?A = "(\<lambda>s. lower (strip (py_str E s))) ` {s \<in> set xs. strip (py_str E s) \<noteq> []}"
  have fin: "finite ?A"
    by simp
  have so: "sorted L"
    unfolding L by simp
  have di: "distinct L"
    unfolding L by simp
  have se: "set L = ?A"
    unfolding L using fin by simp
  have "s \<noteq> [] \<and> strip s = s \<and> lower s = s" if "s \<in> set L" for s
  proof -
    from that se obtain x where "s = lower (strip (py_str E x))" "strip (py_str E x) \<noteq> []"
      by blast
    then show ?thesis
      by (simp add: normal_strip normal_lower lower_Nil_iff)
  qed
  with so di show ?thesis
    by blast
qed

lemma py_or_str_list: "py_or (JList (map JStr L)) (JList []) = JList (map JStr L)"
  by (simp add: py_or_def)

lemma validated_skills_idem:
  assumes "validated_skills E v = Inr L"
  shows "validated_skills E (py_or (JList (map JStr L)) (JList [])) = Inr L"
proof -
  from validated_skills_normal [OF assms]
  have s: "sorted L" and d: "distinct L"
    and n: "\<And>s. s \<in> set L \<Longrightarrow> s \<noteq> [] \<and> strip s = s \<and> lower s = s"
    by auto
  have f: "filter (\<lambda>s. strip (py_str E s) \<noteq> []) (map JStr L) = map JStr L"
    using n by (auto simp: py_str_def filter_id_conv)
  have m: "map (\<lambda>s. lower (strip (py_str E s))) (map JStr L) = L"
    using n by (simp add: py_str_def map_idI)
  have i: "sorted_list_of_set (set L) = L"
    using s d by (rule sorted_list_of_set.idem_if_sorted_distinct)
  have "validated_skills E (JList (map JStr L)) = Inr (sorted_list_of_set (set L))"
    unfolding validated_skills_def py_iter_def json.case sum.case f m ..
  then show ?thesis
    unfolding py_or_str_list i .
qed

lemma py_get_JDict: "py_get (JDict d) k dflt = Inr (dict_get d k dflt)"
  by (simp add: py_get_def)

lemma py_or_idem: "py_or (py_or e d) d = py_or e d"
  by (simp add: py_or_def)

text \<open>What the normalised dict holds, when the validator returns one.\<close>

lemma validate_match_output_result_Inr:
  assumes "validate_match_output_result E x = Inr normalized"
  shows "\<exists>d ov mi.
           loads_or_empty E x = JDict d
           \<and> validated_skills E (py_or (dict_get d ''overlapping_skills'' (JList [])) (JList [])) = Inr ov
           \<and> validated_skills E (py_or (dict_get d ''missing_skills'' (JList [])) (JList [])) = Inr mi
           \<and> normalized =
               [(''score'', JFloat (validated_score E (dict_get d ''score'' (JFloat (Fin 0))))),
                (''overlapping_skills'', JList (map JStr ov)),
                (''missing_skills'', JList (map JStr mi)),
                (''explanation'', py_or (dict_get d ''explanation'' (JStr [])) (JStr []))]"
proof -
  let ?score = "py_get (loads_or_empty E x) ''score'' (JFloat (Fin 0))"
  have "\<exists>sc. ?score = Inr sc"
  proof (cases ?score)
    case (Inl e)
    with assms show ?thesis
      unfolding validate_match_output_result_def Let_def by (simp only: sum.case sum.distinct)
  next
    case (Inr sc)
    then show ?thesis by simp
  qed
  then obtain d where JDict: "loads_or_empty E x = JDict d"
    by (cases "loads_or_empty E x") (simp_all add: py_get_def)
  let ?ov = "validated_skills E (py_or (dict_get d ''overlapping_skills'' (JList [])) (JList []))"
  let ?mi = "validated_skills E (py_or (dict_get d ''missing_skills'' (JList [])) (JList []))"
  note unf = validate_match_output_result_def JDict Let_def py_get_JDict sum.case
  have "\<exists>ov. ?ov = Inr ov"
  proof (cases ?ov)
    case (Inl e)
    with assms show ?thesis
      unfolding unf by (simp only: sum.case sum.distinct)
  next
    case (Inr ov)
    then show ?thesis by simp
  qed
  then obtain ov where ov: "?ov = Inr ov" ..
  have "\<exists>mi. ?mi = Inr mi"
  proof (cases ?mi)
    case (Inl e)
    with assms show ?thesis
      unfolding unf ov by (simp only: sum.case sum.distinct)
  next
    case (Inr mi)
    then show ?thesis by simp
  qed
  then obtain mi where mi: "?mi = Inr mi" ..
  from assms have "normalized =
               [(''score'', JFloat (validated_score E (dict_get d ''score'' (JFloat (Fin 0))))),
                (''overlapping_skills'', JList (map JStr ov)),
                (''missing_skills'', JList (map JStr mi)),
                (''explanation'', py_or (dict_get d ''explanation'' (JStr [])) (JStr []))]"
    unfolding unf ov mi by (simp only: sum.inject)
  with JDict ov mi show ?thesis
    by blast
qed

lemma validate_match_output_result_again:
  assumes "validate_match_output_result E x = Inr normalized"
    and "loads E y = Some (JDict normalized)"
  shows "validate_match_output_result E y = Inr normalized"
proof -
  from validate_match_output_result_Inr [OF assms(1)] obtain d ov mi where
    ov: "validated_skills E (py_or (dict_get d ''overlapping_skills'' (JList [])) (JList [])) = Inr ov"
    and mi: "validated_skills E (py_or (dict_get d ''missing_skills'' (JList [])) (JList [])) = Inr mi"
    and n: "normalized =
               [(''score'', JFloat (validated_score E (dict_get d ''score'' (JFloat (Fin 0))))),
                (''overlapping_skills'', JList (map JStr ov)),
                (''missing_skills'', JList (map JStr mi)),
                (''explanation'', py_or (dict_get d ''explanation'' (JStr [])) (JStr []))]"
    by blast
  have l: "loads_or_empty E y = JDict normalized"
    by (simp add: loads_or_empty_def assms(2))
  have g1: "dict_get normalized ''score'' (JFloat (Fin 0))
              = JFloat (validated_score E (dict_get d ''score'' (JFloat (Fin 0))))"
    and g2: "dict_get normalized ''overlapping_skills'' (JList []) = JList (map JStr ov)"
    and g3: "dict_get normalized ''missing_skills'' (JList []) = JList (map JStr mi)"
    and g4: "dict_get normalized ''explanation'' (JStr [])
              = py_or (dict_get d ''explanation'' (JStr [])) (JStr [])"
    unfolding n dict_get_def by simp_all
  show ?thesis
    unfolding validate_match_output_result_def l Let_def py_get_JDict sum.case g1 g2 g3 g4
      validated_score_idem validated_skills_idem [OF ov] validated_skills_idem [OF mi] py_or_idem
    unfolding n ..
qed

text \<open>
  C5. The validator is idempotent: applied to its own output it returns that output
  again, and where it raises on the input the composition raises the same error. The
  decoder is taken to read back the normalised dict from the text the encoder wrote
  for it.
\<close>

theorem validate_match_output_idempotent:
  assumes "\<And>normalized. validate_match_output_result E x = Inr normalized \<Longrightarrow>
             loads E (dumps E None (JDict normalized)) = Some (JDict normalized)"
  shows "(case validate_match_output E x of
            Inl e \<Rightarrow> Inl e
          | Inr y \<Rightarrow> validate_match_output E y) = validate_match_output E x"
proof (cases "validate_match_output_result E x")
  case (Inl e)
  then show ?thesis by (simp add: validate_match_output_def)
next
  case (Inr normalized)
  from validate_match_output_result_again [OF Inr assms [OF Inr]] Inr show ?thesis
    by (simp add: validate_match_output_def)
qed

theorem validate_match_output_idempotent_witness:
  "validate_match_output_result sample_env ''raw_match.json''
     = Inr [(''score'', JFloat (Fin 1)),
            (''overlapping_skills'', JList [JStr ''python'', JStr ''sql'']),
            (''missing_skills'', JList [JStr ''kafka'']),
            (''explanation'', JStr [])]
   \<and> loads sample_env (dumps sample_env None
          (JDict [(''score'', JFloat (Fin 1)),
                  (''overlapping_skills'', JList [JStr ''python'', JStr ''sql'']),
                  (''missing_skills'', JList [JStr ''kafka'']),
                  (''explanation'', JStr [])]))
       = Some (JDict [(''score'', JFloat (Fin 1)),
                      (''overlapping_skills'', JList [JStr ''python'', JStr ''sql'']),
                      (''missing_skills'', JList [JStr ''kafka'']),
                      (''explanation'', JStr [])])
   \<and> validate_match_output sample_env ''raw_match.json'' = Inr ''normalized_match.json''
   \<and> validate_match_output sample_env ''normalized_match.json'' = Inr ''normalized_match.json''
   \<and> (case validate_match_output sample_env ''raw_match.json'' of
          Inl e \<Rightarrow> Inl e
        | Inr y \<Rightarrow> validate_match_output sample_env y)
       = validate_match_output sample_env ''raw_match.json''"
proof -
  have v: "validate_match_output_result sample_env ''raw_match.json''
             = Inr [(''score'', JFloat (Fin 1)),
                    (''overlapping_skills'', JList [JStr ''python'', JStr ''sql'']),
                    (''missing_skills'', JList [JStr ''kafka'']),
                    (''explanation'', JStr [])]"
    by code_simp
  have h: "loads sample_env (dumps sample_env None (JDict normalized)) = Some (JDict normalized)"
    if "validate_match_output_result sample_env ''raw_match.json'' = Inr normalized"
    for normalized
  proof -
    from that v have "JDict normalized = normalized_match"
      by (simp add: normalized_match_def)
    then show ?thesis
      by (simp add: sample_env_def sample_loads_def)
  qed
  have o: "validate_match_output sample_env ''raw_match.json'' = Inr ''normalized_match.json''"
    unfolding validate_match_output_def v by (simp add: sample_env_def normalized_match_def)
  from validate_match_output_idempotent [of sample_env "''raw_match.json''", OF h] h [OF v] v o
  show ?thesis
    by simp
qed

lemma validated_score_error: "py_float E v = Inl e \<Longrightarrow> validated_score E v = Fin 0"
  by (simp add: validated_score_def py_max_def py_min_def)

text \<open>
  Whenever the validator returns a result, its score is a float: the score field of
  the decoded input (0.0 when the field is absent or the input is not JSON) converted by
  \<^verbatim>\<open>float\<close>, replaced by 0.0 when the conversion raises, and then clamped, so that it
  lies between 0.0 and 1.0. A finite score \<open>f\<close> becomes \<open>max 0 (min 1 f)\<close>: 1.5 becomes
  1.0 and -0.2 becomes 0.0; the text \<^verbatim>\<open>abc\<close>, on which \<^verbatim>\<open>float\<close> raises, becomes 0.0.
\<close>

theorem validate_match_output_score_returned:
  "(\<forall>normalized. validate_match_output_result E x = Inr normalized \<longrightarrow>
      (\<exists>d q. loads_or_empty E x = JDict d
         \<and> validate_match_output E x = Inr (dumps E None (JDict normalized))
         \<and> map_of normalized ''score'' = Some (JFloat (Fin q))
         \<and> Fin q = validated_score E (dict_get d ''score'' (JFloat (Fin 0)))
         \<and> 0 \<le> q \<and> q \<le> 1))
   \<and> (\<forall>v e. py_float E v = Inl e \<longrightarrow> validated_score E v = Fin 0)
   \<and> (\<forall>v f. py_float E v = Inr (Fin f) \<longrightarrow> validated_score E v = Fin (max 0 (min 1 f)))
   \<and> validated_score E (JFloat (Fin (3 / 2))) = Fin 1
   \<and> validated_score E (JFloat (Fin (- 1 / 5))) = Fin 0
   \<and> (float_of_str E ''abc'' = None \<longrightarrow> validated_score E (JStr ''abc'') = Fin 0)"
proof (intro conjI allI impI)
  fix normalized
  assume r: "validate_match_output_result E x = Inr normalized"
  from validate_match_output_result_Inr [OF r] obtain d ov mi where
    d: "loads_or_empty E x = JDict d"
    and n: "normalized =
               [(''score'', JFloat (validated_score E (dict_get d ''score'' (JFloat (Fin 0))))),
                (''overlapping_skills'', JList (map JStr ov)),
                (''missing_skills'', JList (map JStr mi)),
                (''explanation'', py_or (dict_get d ''explanation'' (JStr [])) (JStr []))]"
    by blast
  from validated_score_range [of E "dict_get d ''score'' (JFloat (Fin 0))"] obtain q where
    q: "validated_score E (dict_get d ''score'' (JFloat (Fin 0))) = Fin q" "0 \<le> q" "q \<le> 1"
    by blast
  have m: "map_of normalized ''score'' = Some (JFloat (Fin q))"
    unfolding n q(1) by simp
  have o: "validate_match_output E x = Inr (dumps E None (JDict normalized))"
    by (simp add: validate_match_output_def r)
  from d o m q show "\<exists>d q. loads_or_empty E x = JDict d
         \<and> validate_match_output E x = Inr (dumps E None (JDict normalized))
         \<and> map_of normalized ''score'' = Some (JFloat (Fin q))
         \<and> Fin q = validated_score E (dict_get d ''score'' (JFloat (Fin 0)))
         \<and> 0 \<le> q \<and> q \<le> 1"
    by auto
next
  fix v e
  assume "py_float E v = Inl e"
  then show "validated_score E v = Fin 0"
    by (rule validated_score_error)
next
  fix v f
  assume "py_float E v = Inr (Fin f)"
  then show "validated_score E v = Fin (max 0 (min 1 f))"
    by (rule validated_score_Fin)
next
  show "validated_score E (JFloat (Fin (3 / 2))) = Fin 1"
    by (simp add: validated_score_def py_float_def py_max_def py_min_def)
next
  show "validated_score E (JFloat (Fin (- 1 / 5))) = Fin 0"
    by (simp add: validated_score_def py_float_def py_max_def py_min_def)
next
  assume "float_of_str E ''abc'' = None"
  then have "py_float E (JStr ''abc'') = Inl ValueError"
    by (simp add: py_float_def)
  then show "validated_score E (JStr ''abc'') = Fin 0"
    by (rule validated_score_error)
qed

theorem validate_match_output_score_returned_example:
  "validate_match_output_result sample_env ''text_score.json''
     = Inr [(''score'', JFloat (Fin 0)),
            (''overlapping_skills'', JList []),
            (''missing_skills'', JList []),
            (''explanation'', JStr [])]
   \<and> float_of_str sample_env ''abc'' = None
   \<and> py_float sample_env (JStr ''abc'') = Inl ValueError
   \<and> py_float sample_env (JFloat (Fin (3 / 2))) = Inr (Fin (3 / 2))
   \<and> validated_score sample_env (JStr ''abc'') = Fin 0
   \<and> validated_score sample_env (JFloat (Fin (3 / 2))) = Fin (max 0 (min 1 (3 / 2)))
   \<and> (\<exists>d q. loads_or_empty sample_env ''text_score.json'' = JDict d
         \<and> map_of [(''score'', JFloat (Fin 0)),
                    (''overlapping_skills'', JList []),
                    (''missing_skills'', JList []),
                    (''explanation'', JStr [])] ''score'' = Some (JFloat (Fin q))
         \<and> Fin q = validated_score sample_env (dict_get d ''score'' (JFloat (Fin 0)))
         \<and> 0 \<le> q \<and> q \<le> 1)"
proof -
  have v: "validate_match_output_result sample_env ''text_score.json''
     = Inr [(''score'', JFloat (Fin 0)),
            (''overlapping_skills'', JList []),
            (''missing_skills'', JList []),
            (''explanation'', JStr [])]"
    by code_simp
  have a: "float_of_str sample_env ''abc'' = None"
    by (simp add: sample_env_def)
  have b: "py_float sample_env (JStr ''abc'') = Inl ValueError"
    by (simp add: py_float_def sample_env_def)
  have c: "py_float sample_env (JFloat (Fin (3 / 2))) = Inr (Fin (3 / 2))"
    by (simp add: py_float_def)
  note t = validate_match_output_score_returned [of sample_env "''text_score.json''"]
  from t a have 1: "validated_score sample_env (JStr ''abc'') = Fin 0"
    by blast
  from t c have 2: "validated_score sample_env (JFloat (Fin (3 / 2))) = Fin (max 0 (min 1 (3 / 2)))"
    by blast
  from t v have 3: "\<exists>d q. loads_or_empty sample_env ''text_score.json'' = JDict d
         \<and> map_of [(''score'', JFloat (Fin 0)),
                    (''overlapping_skills'', JList []),
                    (''missing_skills'', JList []),
                    (''explanation'', JStr [])] ''score'' = Some (JFloat (Fin q))
         \<and> Fin q = validated_score sample_env (dict_get d ''score'' (JFloat (Fin 0)))
         \<and> 0 \<le> q \<and> q \<le> 1"
    by blast
  from v a b c 1 2 3 show ?thesis
    by blast
qed

lemma validated_skills_example:
  "validated_skills E (JList [JStr ''Python'', JStr ''python'', JStr '' SQL ''])
     = Inr [''python'', ''sql'']"
proof -
  have s: "strip ''Python'' = ''Python''" "strip ''python'' = ''python''" "strip '' SQL '' = ''SQL''"
    by code_simp+
  have l: "lower ''Python'' = ''python''" "lower ''python'' = ''python''" "lower ''SQL'' = ''sql''"
    by code_simp+
  have o: "sorted_list_of_set (set [''python'', ''python'', ''sql'']) = [''python'', ''sql'']"
    by code_simp
  have "validated_skills E (JList [JStr ''Python'', JStr ''python'', JStr '' SQL ''])
          = Inr (sorted_list_of_set (set [''python'', ''python'', ''sql'']))"
    unfolding validated_skills_def py_iter_def py_str_def by (simp add: s l)
  then show ?thesis
    unfolding o .
qed

text \<open>
  Whenever the validator returns a result, its two skill lists hold strings only;
  each string is not empty and is left as it is by \<^verbatim>\<open>strip\<close> and by \<^verbatim>\<open>lower\<close>; each
  list has no duplicates and is in ascending lexicographic order. The list
  \<^verbatim>\<open>["Python", "python", " SQL "]\<close> becomes \<^verbatim>\<open>["python", "sql"]\<close>.
\<close>

theorem validate_match_output_skills_returned:
  "(\<forall>normalized. validate_match_output_result E x = Inr normalized \<longrightarrow>
      (\<exists>ov mi.
         validate_match_output E x = Inr (dumps E None (JDict normalized))
         \<and> map_of normalized ''overlapping_skills'' = Some (JList (map JStr ov))
         \<and> map_of normalized ''missing_skills'' = Some (JList (map JStr mi))
         \<and> sorted ov \<and> distinct ov \<and> (\<forall>s \<in> set ov. s \<noteq> [] \<and> strip s = s \<and> lower s = s)
         \<and> sorted mi \<and> distinct mi \<and> (\<forall>s \<in> set mi. s \<noteq> [] \<and> strip s = s \<and> lower s = s)))
   \<and> validated_skills E (JList [JStr ''Python'', JStr ''python'', JStr '' SQL ''])
        = Inr [''python'', ''sql'']"
proof (intro conjI allI impI)
  fix normalized
  assume r: "validate_match_output_result E x = Inr normalized"
  from validate_match_output_result_Inr [OF r] obtain d ov mi where
    ov: "validated_skills E (py_or (dict_get d ''overlapping_skills'' (JList [])) (JList [])) = Inr ov"
    and mi: "validated_skills E (py_or (dict_get d ''missing_skills'' (JList [])) (JList [])) = Inr mi"
    and n: "normalized =
               [(''score'', JFloat (validated_score E (dict_get d ''score'' (JFloat (Fin 0))))),
                (''overlapping_skills'', JList (map JStr ov)),
                (''missing_skills'', JList (map JStr mi)),
                (''explanation'', py_or (dict_get d ''explanation'' (JStr [])) (JStr []))]"
    by blast
  have m1: "map_of normalized ''overlapping_skills'' = Some (JList (map JStr ov))"
    unfolding n by simp
  have m2: "map_of normalized ''missing_skills'' = Some (JList (map JStr mi))"
    unfolding n by simp
  have o: "validate_match_output E x = Inr (dumps E None (JDict normalized))"
    by (simp add: validate_match_output_def r)
  from o m1 m2 validated_skills_normal [OF ov] validated_skills_normal [OF mi]
  show "\<exists>ov mi.
         validate_match_output E x = Inr (dumps E None (JDict normalized))
         \<and> map_of normalized ''overlapping_skills'' = Some (JList (map JStr ov))
         \<and> map_of normalized ''missing_skills'' = Some (JList (map JStr mi))
         \<and> sorted ov \<and> distinct ov \<and> (\<forall>s \<in> set ov. s \<noteq> [] \<and> strip s = s \<and> lower s = s)
         \<and> sorted mi \<and> distinct mi \<and> (\<forall>s \<in> set mi. s \<noteq> [] \<and> strip s = s \<and> lower s = s)"
    by blast
next
  show "validated_skills E (JList [JStr ''Python'', JStr ''python'', JStr '' SQL ''])
        = Inr [''python'', ''sql'']"
    by (rule validated_skills_example)
qed

theorem validate_match_output_skills_returned_example:
  "validate_match_output_result sample_env ''raw_match.json''
     = Inr [(''score'', JFloat (Fin 1)),
            (''overlapping_skills'', JList [JStr ''python'', JStr ''sql'']),
            (''missing_skills'', JList [JStr ''kafka'']),
            (''explanation'', JStr [])]
   \<and> (\<exists>ov mi.
         map_of [(''score'', JFloat (Fin 1)),
                 (''overlapping_skills'', JList [JStr ''python'', JStr ''sql'']),
                 (''missing_skills'', JList [JStr ''kafka'']),
                 (''explanation'', JStr [])] ''overlapping_skills'' = Some (JList (map JStr ov))
         \<and> map_of [(''score'', JFloat (Fin 1)),
                 (''overlapping_skills'', JList [JStr ''python'', JStr ''sql'']),
                 (''missing_skills'', JList [JStr ''kafka'']),
                 (''explanation'', JStr [])] ''missing_skills'' = Some (JList (map JStr mi))
         \<and> sorted ov \<and> distinct ov \<and> sorted mi \<and> distinct mi
         \<and> list_all (\<lambda>s. s \<noteq> [] \<and> strip s = s \<and> lower s = s) (ov @ mi))"
proof -
  have v: "validate_match_output_result sample_env ''raw_match.json''
     = Inr [(''score'', JFloat (Fin 1)),
            (''overlapping_skills'', JList [JStr ''python'', JStr ''sql'']),
            (''missing_skills'', JList [JStr ''kafka'']),
            (''explanation'', JStr [])]"
    by code_simp
  from validate_match_output_skills_returned [of sample_env "''raw_match.json''"] v
  obtain ov mi where
    "map_of [(''score'', JFloat (Fin 1)),
                 (''overlapping_skills'', JList [JStr ''python'', JStr ''sql'']),
                 (''missing_skills'', JList [JStr ''kafka'']),
                 (''explanation'', JStr [])] ''overlapping_skills'' = Some (JList (map JStr ov))"
    "map_of [(''score'', JFloat (Fin 1)),
                 (''overlapping_skills'', JList [JStr ''python'', JStr ''sql'']),
                 (''missing_skills'', JList [JStr ''kafka'']),
                 (''explanation'', JStr [])] ''missing_skills'' = Some (JList (map JStr mi))"
    "sorted ov" "distinct ov" "sorted mi" "distinct mi"
    and a: "\<forall>s \<in> set ov. s \<noteq> [] \<and> strip s = s \<and> lower s = s"
    and b: "\<forall>s \<in> set mi. s \<noteq> [] \<and> strip s = s \<and> lower s = s"
    by blast
  moreover from a b have "list_all (\<lambda>s. s \<noteq> [] \<and> strip s = s \<and> lower s = s) (ov @ mi)"
    unfolding list_all_iff by auto
  ultimately show ?thesis
    using v by blast
qed

section \<open>Sequencing and decoding\<close>

lemma and_then_Inr: "and_then (Inr v) f = f v"
  by (simp add: and_then_def)

lemma and_then_Inl: "and_then (Inl e) f = Inl e"
  by (simp add: and_then_def)

lemma loads_or_empty_mapping:
  "mapping_or_undecodable E s \<Longrightarrow> \<exists>d. loads_or_empty E s = JDict d"
  by (auto simp: mapping_or_undecodable_def loads_or_empty_def split: option.splits json.splits)

text \<open>
  Where the validator returns: the input is not JSON or decodes to a mapping, and each
  skill field is null, empty or iterable. On an input that decodes to anything else than
  a mapping \<^verbatim>\<open>data.get\<close> raises, and on a skill field that is a number or \<^verbatim>\<open>true\<close> the set
  comprehension raises.
\<close>

lemma field_of_mapping: "loads_or_empty E x = JDict d \<Longrightarrow> field_of E x k dflt = dict_get d k dflt"
  by (simp add: field_of_def)

lemma validate_match_output_returns:
  assumes "mapping_or_undecodable E x"
    and "skills_iterable (field_of E x ''overlapping_skills'' (JList []))"
    and "skills_iterable (field_of E x ''missing_skills'' (JList []))"
  shows "\<exists>normalized. validate_match_output_result E x = Inr normalized
           \<and> validate_match_output E x = Inr (dumps E None (JDict normalized))"
proof -
  from loads_or_empty_mapping [OF assms(1)] obtain d where d: "loads_or_empty E x = JDict d" ..
  let ?ov = "py_or (dict_get d ''overlapping_skills'' (JList [])) (JList [])"
  let ?mi = "py_or (dict_get d ''missing_skills'' (JList [])) (JList [])"
  from assms(2) obtain xs where xs: "py_iter ?ov = Inr xs"
    unfolding skills_iterable_def field_of_mapping [OF d] by (cases "py_iter ?ov") simp_all
  from assms(3) obtain ys where ys: "py_iter ?mi = Inr ys"
    unfolding skills_iterable_def field_of_mapping [OF d] by (cases "py_iter ?mi") simp_all
  obtain ov where ov: "validated_skills E ?ov = Inr ov"
    unfolding validated_skills_def xs by simp
  obtain mi where mi: "validated_skills E ?mi = Inr mi"
    unfolding validated_skills_def ys by simp
  have "\<exists>normalized. validate_match_output_result E x = Inr normalized"
    unfolding validate_match_output_result_def d Let_def py_get_JDict sum.case ov mi
    by (rule exI) (rule refl)
  then obtain normalized where n: "validate_match_output_result E x = Inr normalized" ..
  then have "validate_match_output E x = Inr (dumps E None (JDict normalized))"
    by (simp add: validate_match_output_def)
  with n show ?thesis
    by blast
qed

text \<open>
  C6. The validator does not yield a score for every input. The docstring promises a
  result with a score between 0.0 and 1.0, and the code guards the decoding and the
  conversion of the score; but a payload that decodes to a list has no \<^verbatim>\<open>get\<close>, and a
  payload with score 1.5 whose skill field is the number 5 has its score clamped to 1.0
  and then raises in the set comprehension, so no score is returned in either case.
\<close>

theorem validate_match_output_score_not_returned:
  "loads sample_env ''list.json'' = Some (JList [])
   \<and> validate_match_output sample_env ''list.json'' = Inl AttributeError
   \<and> loads sample_env ''number_skills.json''
         = Some (JDict [(''score'', JFloat (Fin (3 / 2))), (''overlapping_skills'', JInt 5)])
   \<and> validated_score sample_env (JFloat (Fin (3 / 2))) = Fin 1
   \<and> validate_match_output sample_env ''number_skills.json'' = Inl TypeError"
proof (intro conjI)
  show l: "loads sample_env ''list.json'' = Some (JList [])"
    by (simp add: sample_env_def sample_loads_def)
  have e: "loads_or_empty sample_env ''list.json'' = JList []"
    by (simp add: loads_or_empty_def l)
  have g: "py_get (JList []) ''score'' (JFloat (Fin 0)) = Inl AttributeError"
    by (simp add: py_get_def)
  have "validate_match_output_result sample_env ''list.json'' = Inl AttributeError"
    unfolding validate_match_output_result_def e Let_def g sum.case ..
  then show "validate_match_output sample_env ''list.json'' = Inl AttributeError"
    by (simp add: validate_match_output_def)
  show n: "loads sample_env ''number_skills.json''
         = Some (JDict [(''score'', JFloat (Fin (3 / 2))), (''overlapping_skills'', JInt 5)])"
    by (simp add: sample_env_def sample_loads_def)
  show "validated_score sample_env (JFloat (Fin (3 / 2))) = Fin 1"
    by (simp add: validated_score_def py_float_def py_max_def py_min_def)
  have "validate_match_output_result sample_env ''number_skills.json'' = Inl TypeError"
    by code_simp
  then show "validate_match_output sample_env ''number_skills.json'' = Inl TypeError"
    by (simp add: validate_match_output_def)
qed

text \<open>
  C7. The validator does not emit skill lists for every input. The docstring promises
  two lists of lowercase skill strings, and the code replaces a null field by the empty
  list and turns every item into a string; but a skill field that is \<^verbatim>\<open>true\<close> or a
  number is not iterable, and the set comprehension raises TypeError instead of emitting a
  list.
\<close>

theorem validate_match_output_skills_not_returned:
  "loads sample_env ''flag_skills.json''
     = Some (JDict [(''score'', JFloat (Fin (1 / 2))), (''missing_skills'', JBool True)])
   \<and> py_iter (py_or (JBool True) (JList [])) = Inl TypeError
   \<and> validate_match_output sample_env ''flag_skills.json'' = Inl TypeError"
proof (intro conjI)
  show "loads sample_env ''flag_skills.json''
     = Some (JDict [(''score'', JFloat (Fin (1 / 2))), (''missing_skills'', JBool True)])"
    by (simp add: sample_env_def sample_loads_def)
  show "py_iter (py_or (JBool True) (JList [])) = Inl TypeError"
    by (simp add: py_iter_def py_or_def)
  have "validate_match_output_result sample_env ''flag_skills.json'' = Inl TypeError"
    by code_simp
  then show "validate_match_output sample_env ''flag_skills.json'' = Inl TypeError"
    by (simp add: validate_match_output_def)
qed

section \<open>Properties of the JSON tool\<close>

text \<open>
  C9. \<^verbatim>\<open>parse_json\<close> has no handler: on every text on which the decoder raises, as it
  does on the empty text, \<^verbatim>\<open>parse_json\<close> raises the decode error and returns nothing.
\<close>

theorem parse_json_raises:
  assumes "loads E json_str = None"
  shows "parse_json E json_str = Inl JSONDecodeError \<and> (\<forall>v. parse_json E json_str \<noteq> Inr v)"
  using assms by (simp add: parse_json_def)

theorem parse_json_raises_witness:
  "loads sample_env [] = None
   \<and> parse_json sample_env [] = Inl JSONDecodeError
   \<and> parse_json sample_env ''list.json'' = Inr (JList [])"
proof -
  have h: "loads sample_env [] = None"
    by (simp add: sample_env_def sample_loads_def)
  have v: "parse_json sample_env ''list.json'' = Inr (JList [])"
    by (simp add: parse_json_def sample_env_def sample_loads_def)
  from parse_json_raises [OF h] h v show ?thesis
    by simp
qed

section \<open>Properties of the run logger\<close>

text \<open>
  When the three payloads are mappings or are not JSON, the logger returns a status: the
  success text and the store with one more line, or the failure text with the reason and
  the store as it was.
\<close>

lemma log_run_status:
  assumes "mapping_or_undecodable E r" "mapping_or_undecodable E j" "mapping_or_undecodable E m"
  shows "\<exists>line. log_run E r j m email st =
           (case write_fault st of
              None \<Rightarrow> Inr (''Run logged to runs_log.jsonl.'',
                           st\<lparr>log_lines := log_lines st @ [line]\<rparr>)
            | Some e \<Rightarrow> Inr (''Failed to log run: '' @ e, st))"
proof -
  from loads_or_empty_mapping [OF assms(1)] obtain a where a: "loads_or_empty E r = JDict a" ..
  from loads_or_empty_mapping [OF assms(2)] obtain b where b: "loads_or_empty E j = JDict b" ..
  from loads_or_empty_mapping [OF assms(3)] obtain c where c: "loads_or_empty E m = JDict c" ..
  note d = a b c
  have p: "''Run logged to '' @ ''runs_log.jsonl'' @ ''.'' = ''Run logged to runs_log.jsonl.''"
    by simp
  show ?thesis
  proof (cases "write_fault st")
    case None
    show ?thesis
      unfolding log_run_def d Let_def py_get_JDict and_then_Inr None option.case p
      by (rule exI) (rule refl)
  next
    case (Some e)
    show ?thesis
      unfolding log_run_def d Let_def py_get_JDict and_then_Inr Some option.case
      by (rule exI) (rule refl)
  qed
qed

text \<open>
  C8. The logger does propagate a fault: a payload that is JSON but not a mapping, such
  as a list, has no \<^verbatim>\<open>get\<close>, and the AttributeError leaves \<^verbatim>\<open>log_run\<close> before the store is
  touched, whether or not the store can be written.
\<close>

theorem log_run_raises_on_list:
  "loads sample_env ''list.json'' = Some (JList [])
   \<and> log_run sample_env ''list.json'' ''job.json'' ''normalized_match.json'' ''Hello'' st
       = Inl AttributeError"
proof
  show l: "loads sample_env ''list.json'' = Some (JList [])"
    by (simp add: sample_env_def sample_loads_def)
  have e: "loads_or_empty sample_env ''list.json'' = JList []"
    by (simp add: loads_or_empty_def l)
  have g: "py_get (JList []) ''name'' JNull = Inl AttributeError"
    by (simp add: py_get_def)
  show "log_run sample_env ''list.json'' ''job.json'' ''normalized_match.json'' ''Hello'' st
          = Inl AttributeError"
    unfolding log_run_def e Let_def g and_then_Inl ..
qed

section \<open>Properties of the derived-text generators\<close>
























end
